theory Spec2Isabelle
  imports Main
begin

section \<open>The starred-restaurants router\<close>

text \<open>
  A shallow embedding of \<^verbatim>\<open>backend/routes/starredRestaurants.js\<close>. The module keeps one
  array, \<^verbatim>\<open>STARRED_RESTAURANTS\<close>, and registers four handlers on an Express router:
  \<^verbatim>\<open>GET /\<close>, \<^verbatim>\<open>GET /:id\<close>, \<^verbatim>\<open>POST /\<close> and \<^verbatim>\<open>DELETE /:id\<close>. Each handler is a function from
  the catalog and the array to a response and the array afterwards.

  Three things sit outside the module and are parameters of the model:
  the catalog \<^verbatim>\<open>ALL_RESTAURANTS\<close> (required from \<^verbatim>\<open>./restaurants\<close>), the value a call of
  \<^verbatim>\<open>uuidv4()\<close> returns, and the decoded request (path parameters and body fields, the body's
  \<^verbatim>\<open>restaurantId\<close> a string and its \<^verbatim>\<open>comment\<close> a string or absent).
\<close>

subsection \<open>Data\<close>

text \<open>An element of \<^verbatim>\<open>STARRED_RESTAURANTS\<close>: \<^verbatim>\<open>{ id, restaurantId, comment }\<close>.\<close>

record starredRestaurant =
  sr_id :: string
  restaurantId :: string
  comment :: string

text \<open>An element of \<^verbatim>\<open>ALL_RESTAURANTS\<close>; the module reads its \<^verbatim>\<open>id\<close> and \<^verbatim>\<open>name\<close> only.\<close>

record restaurant =
  r_id :: string
  name :: string

text \<open>The joined object the two GET handlers build: \<^verbatim>\<open>{ id, comment, name }\<close>.\<close>

record joinedStarredRestaurant =
  j_id :: string
  j_comment :: string
  j_name :: string

text \<open>
  Reading \<^verbatim>\<open>restaurant.name\<close> when \<^verbatim>\<open>restaurant\<close> is \<^verbatim>\<open>undefined\<close> throws a TypeError.
\<close>

datatype js_error = TypeError

datatype payload =
  JoinedList "joinedStarredRestaurant list"
| Joined joinedStarredRestaurant
| Starred starredRestaurant

text \<open>
  What a handler does with \<^verbatim>\<open>res\<close>: \<^verbatim>\<open>res.sendStatus(n)\<close>, \<^verbatim>\<open>res.status(n).json(v)\<close>
  (\<^verbatim>\<open>res.json(v)\<close> is status 200), or an exception that leaves the handler.
  \<open>Unrouted\<close>: no route of this router matches the request.
\<close>

datatype response =
  SendStatus nat
| Json nat payload
| Uncaught js_error
| Unrouted

datatype http_method = GET | POST | DELETE | PUT | PATCH

record request_body =
  body_restaurantId :: string
  body_comment :: "string option"

text \<open>The initial value of \<^verbatim>\<open>STARRED_RESTAURANTS\<close> (lines 10 to 21).\<close>

definition STARRED_RESTAURANTS :: "starredRestaurant list" where
  "STARRED_RESTAURANTS =
     [\<lparr>sr_id = ''a7272cd9-26fb-44b5-8d53-9781f55175a1'',
       restaurantId = ''869c848c-7a58-4ed6-ab88-72ee2e8e677c'',
       comment = ''Best pho in NYC''\<rparr>,
      \<lparr>sr_id = ''8df59b21-2152-4f9b-9200-95c19aa88226'',
       restaurantId = ''e8036613-4b72-46f6-ab5e-edd2fc7c4fe4'',
       comment = ''Their lunch special is the best!''\<rparr>]"

subsection \<open>Feature 6: \<^verbatim>\<open>GET /\<close>\<close>

text \<open>
  The callback of \<^verbatim>\<open>STARRED_RESTAURANTS.map\<close> (lines 32 to 42): \<^verbatim>\<open>ALL_RESTAURANTS.find\<close> returns
  the first entry whose id equals the record's \<^verbatim>\<open>restaurantId\<close>, or \<^verbatim>\<open>undefined\<close>; the
  object literal then reads \<^verbatim>\<open>restaurant.name\<close> with no check.
\<close>

definition joinStarred :: "restaurant list \<Rightarrow> starredRestaurant \<Rightarrow> js_error + joinedStarredRestaurant" where
  "joinStarred ALL_RESTAURANTS starredRestaurant =
     (case find (\<lambda>restaurant. r_id restaurant = restaurantId starredRestaurant) ALL_RESTAURANTS of
        None \<Rightarrow> Inl TypeError
      | Some restaurant \<Rightarrow>
          Inr \<lparr>j_id = sr_id starredRestaurant,
               j_comment = comment starredRestaurant,
               j_name = name restaurant\<rparr>)"

text \<open>
  \<^verbatim>\<open>Array.prototype.map\<close> with a callback that may throw: the elements are visited in order
  and the first exception ends the whole call.
\<close>

fun map_throwing :: "('a \<Rightarrow> js_error + 'b) \<Rightarrow> 'a list \<Rightarrow> js_error + 'b list" where
  "map_throwing f [] = Inr []"
| "map_throwing f (x # xs) =
     (case f x of
        Inl e \<Rightarrow> Inl e
      | Inr y \<Rightarrow> (case map_throwing f xs of Inl e \<Rightarrow> Inl e | Inr ys \<Rightarrow> Inr (y # ys)))"

definition get_root :: "restaurant list \<Rightarrow> starredRestaurant list \<Rightarrow> response \<times> starredRestaurant list" where
  "get_root ALL_RESTAURANTS S =
     (case map_throwing (joinStarred ALL_RESTAURANTS) S of
        Inl e \<Rightarrow> (Uncaught e, S)
      | Inr joinedStarredRestaurants \<Rightarrow> (Json 200 (JoinedList joinedStarredRestaurants), S))"

subsection \<open>Feature 7: \<^verbatim>\<open>GET /:id\<close>\<close>

definition get_by_id :: "restaurant list \<Rightarrow> starredRestaurant list \<Rightarrow> string \<Rightarrow> response \<times> starredRestaurant list" where
  "get_by_id ALL_RESTAURANTS S i =
     (case find (\<lambda>r. sr_id r = i) S of
        None \<Rightarrow> (SendStatus 404, S)
      | Some starredRestaurant \<Rightarrow>
          (case find (\<lambda>r. r_id r = restaurantId starredRestaurant) ALL_RESTAURANTS of
             None \<Rightarrow> (SendStatus 404, S)
           | Some restaurant \<Rightarrow>
               (Json 200 (Joined \<lparr>j_id = sr_id starredRestaurant,
                                   j_comment = comment starredRestaurant,
                                   j_name = name restaurant\<rparr>), S)))"

subsection \<open>Feature 8: \<^verbatim>\<open>POST /\<close>\<close>

text \<open>
  \<^verbatim>\<open>comment || ''\<close>: an absent comment and the empty string are both falsy, every other
  string is kept.
\<close>

definition comment_or_empty :: "string option \<Rightarrow> string" where
  "comment_or_empty c = (case c of None \<Rightarrow> [] | Some s \<Rightarrow> (if s = [] then [] else s))"

text \<open>The last argument is the value \<^verbatim>\<open>uuidv4()\<close> returns in this call.\<close>

definition post_root ::
  "restaurant list \<Rightarrow> starredRestaurant list \<Rightarrow> string \<Rightarrow> string option \<Rightarrow> string
     \<Rightarrow> response \<times> starredRestaurant list" where
  "post_root ALL_RESTAURANTS S rid cmt uuidv4 =
     (case find (\<lambda>r. r_id r = rid) ALL_RESTAURANTS of
        None \<Rightarrow> (SendStatus 404, S)
      | Some restaurant \<Rightarrow>
          (let alreadyStarred = list_ex (\<lambda>r. restaurantId r = rid) S in
           if alreadyStarred then (SendStatus 409, S)
           else
             (let newStarred = \<lparr>sr_id = uuidv4, restaurantId = rid, comment = comment_or_empty cmt\<rparr>
              in (Json 201 (Starred newStarred), S @ [newStarred]))))"

subsection \<open>Feature 9: \<^verbatim>\<open>DELETE /:id\<close>\<close>

definition delete_by_id :: "starredRestaurant list \<Rightarrow> string \<Rightarrow> response \<times> starredRestaurant list" where
  "delete_by_id S i =
     (let newList = filter (\<lambda>r. sr_id r \<noteq> i) S in
      if length newList = length S then (SendStatus 404, S)
      else (SendStatus 200, newList))"

subsection \<open>The router\<close>

text \<open>
  The routes in the order the module registers them; the path is the list of segments below
  the mount point, so \<^verbatim>\<open>/\<close> is the empty list and \<^verbatim>\<open>/:id\<close> a single segment. Feature 10
  (updating a comment) is a comment block of four steps with no \<^verbatim>\<open>router.put\<close> or
  \<^verbatim>\<open>router.patch\<close> call after it: no route is registered for it.
\<close>

fun route ::
  "restaurant list \<Rightarrow> starredRestaurant list \<Rightarrow> http_method \<Rightarrow> string list \<Rightarrow> request_body \<Rightarrow> string
     \<Rightarrow> response \<times> starredRestaurant list" where
  "route ALL_RESTAURANTS S GET [] body u = get_root ALL_RESTAURANTS S"
| "route ALL_RESTAURANTS S GET [i] body u = get_by_id ALL_RESTAURANTS S i"
| "route ALL_RESTAURANTS S POST [] body u =
     post_root ALL_RESTAURANTS S (body_restaurantId body) (body_comment body) u"
| "route ALL_RESTAURANTS S DELETE [i] body u = delete_by_id S i"
| "route ALL_RESTAURANTS S m p body u = (Unrouted, S)"

text \<open>
  A sequence of requests, each with the identifier \<^verbatim>\<open>uuidv4()\<close> would return while it is
  served; the result is the array after the last one.
\<close>

fun serve ::
  "restaurant list \<Rightarrow> starredRestaurant list \<Rightarrow> (http_method \<times> string list \<times> request_body \<times> string) list
     \<Rightarrow> starredRestaurant list" where
  "serve ALL_RESTAURANTS S [] = S"
| "serve ALL_RESTAURANTS S ((m, p, body, u) # reqs) =
     serve ALL_RESTAURANTS (snd (route ALL_RESTAURANTS S m p body u)) reqs"

section \<open>Facts about the scans\<close>

lemma find_catalog_None:
  "find (\<lambda>r. r_id r = rid) C = None \<longleftrightarrow> rid \<notin> r_id ` set C"
  by (auto simp: find_None_iff)

lemma find_catalog_Some:
  "rid \<in> r_id ` set C \<Longrightarrow> \<exists>e. find (\<lambda>r. r_id r = rid) C = Some e \<and> r_id e = rid \<and> e \<in> set C"
  by (cases "find (\<lambda>r. r_id r = rid) C") (auto simp: find_None_iff find_Some_iff)

lemma some_starred_iff:
  "list_ex (\<lambda>r. restaurantId r = rid) S \<longleftrightarrow> rid \<in> restaurantId ` set S"
  by (auto simp: list_ex_iff)

lemma post_root_absent:
  assumes "rid \<notin> r_id ` set C"
  shows "post_root C S rid cmt u = (SendStatus 404, S)"
proof -
  from assms have "find (\<lambda>r. r_id r = rid) C = None" by (simp add: find_catalog_None)
  then show ?thesis by (simp add: post_root_def)
qed

lemma post_root_starred:
  assumes "rid \<in> r_id ` set C" and "rid \<in> restaurantId ` set S"
  shows "post_root C S rid cmt u = (SendStatus 409, S)"
proof -
  from assms(1) obtain e where "find (\<lambda>r. r_id r = rid) C = Some e"
    using find_catalog_Some by blast
  moreover have "list_ex (\<lambda>r. restaurantId r = rid) S"
    using assms(2) by (simp add: some_starred_iff)
  ultimately show ?thesis by (simp add: post_root_def)
qed

lemma snd_get_root: "snd (get_root C S) = S"
  by (simp add: get_root_def split: sum.split)

lemma snd_get_by_id: "snd (get_by_id C S i) = S"
  by (simp add: get_by_id_def split: option.split)

lemma snd_post_root:
  "snd (post_root C S rid cmt u) = S \<or>
   (rid \<notin> restaurantId ` set S \<and>
    snd (post_root C S rid cmt u) =
      S @ [\<lparr>sr_id = u, restaurantId = rid, comment = comment_or_empty cmt\<rparr>])"
  by (simp add: post_root_def some_starred_iff Let_def split: option.split)

text \<open>
  When the filter keeps every element the handler leaves the old array in place, and the old
  array is then equal to the filtered one: the array afterwards is the filtered one in both
  branches.
\<close>

lemma snd_delete_by_id:
  "snd (delete_by_id S i) = filter (\<lambda>r. sr_id r \<noteq> i) S"
proof (cases "length (filter (\<lambda>r. sr_id r \<noteq> i) S) = length S")
  case True
  then have "filter (\<lambda>r. sr_id r \<noteq> i) S = S"
    by (metis length_filter_less filter_True nat_neq_iff)
  with True show ?thesis by (simp add: delete_by_id_def)
next
  case False
  then show ?thesis by (simp add: delete_by_id_def)
qed

section \<open>No restaurant is starred twice\<close>

lemma post_root_distinct:
  assumes "distinct (map restaurantId S)"
  shows "distinct (map restaurantId (snd (post_root C S rid cmt u)))"
  using snd_post_root [of C S rid cmt u] assms by auto

lemma delete_by_id_distinct:
  "distinct (map restaurantId S) \<Longrightarrow> distinct (map restaurantId (snd (delete_by_id S i)))"
  by (simp add: snd_delete_by_id distinct_map_filter)

lemma route_distinct:
  "distinct (map restaurantId S) \<Longrightarrow> distinct (map restaurantId (snd (route C S m p body u)))"
  by (induction C S m p body u rule: route.induct)
     (simp_all add: snd_get_root snd_get_by_id post_root_distinct delete_by_id_distinct)

lemma serve_distinct:
  "distinct (map restaurantId S) \<Longrightarrow> distinct (map restaurantId (serve C S reqs))"
  by (induction reqs arbitrary: S) (auto simp: route_distinct)

lemma seed_distinct: "distinct (map restaurantId STARRED_RESTAURANTS)"
  by (simp add: STARRED_RESTAURANTS_def)

text \<open>
  Claim C1, as the code has it. Whatever requests the router serves, starting from the
  initial array, with any catalog and any generated identifiers, the array never holds two
  records with the same \<open>restaurantId\<close>. The sequence ranges over every method and path, so it
  covers Create and Delete and every other request as well, and every prefix of a sequence
  is a sequence, so the property holds at each moment. The mechanism: a Create for a
  \<open>restaurantId\<close> the array already holds is refused and the array stays as it was; the
  refusal is 409 when the catalog lists that \<open>restaurantId\<close> and 404 when it does not.
\<close>

theorem restaurantId_unique:
  "distinct (map restaurantId (serve C STARRED_RESTAURANTS reqs)) \<and>
   (rid \<in> restaurantId ` set S \<longrightarrow>
      post_root C S rid cmt u = (SendStatus (if rid \<in> r_id ` set C then 409 else 404), S))"
proof (intro conjI impI)
  show "distinct (map restaurantId (serve C STARRED_RESTAURANTS reqs))"
    using seed_distinct by (rule serve_distinct)
next
  assume held: "rid \<in> restaurantId ` set S"
  show "post_root C S rid cmt u = (SendStatus (if rid \<in> r_id ` set C then 409 else 404), S)"
  proof (cases "rid \<in> r_id ` set C")
    case True
    with held show ?thesis by (simp add: post_root_starred)
  next
    case False
    then show ?thesis by (simp add: post_root_absent)
  qed
qed

text \<open>
  An instance: the catalog holds the first seed restaurant and one more; the requests star
  the new one, try to star it again, try to star the seed restaurant again, and delete the
  second seed record. A further Create for the first seed restaurant is answered 409.
\<close>

theorem restaurantId_unique_witness:
  "distinct (map restaurantId
     (serve
        [\<lparr>r_id = ''869c848c-7a58-4ed6-ab88-72ee2e8e677c'', name = ''Pho Palace''\<rparr>,
         \<lparr>r_id = ''R3'', name = ''Noodle Bar''\<rparr>]
        STARRED_RESTAURANTS
        [(POST, [], \<lparr>body_restaurantId = ''R3'', body_comment = Some ''Great!''\<rparr>, ''u1''),
         (POST, [], \<lparr>body_restaurantId = ''R3'', body_comment = None\<rparr>, ''u2''),
         (POST, [], \<lparr>body_restaurantId = ''869c848c-7a58-4ed6-ab88-72ee2e8e677c'',
                     body_comment = None\<rparr>, ''u3''),
         (DELETE, [''8df59b21-2152-4f9b-9200-95c19aa88226''],
            \<lparr>body_restaurantId = [], body_comment = None\<rparr>, ''u4'')])) \<and>
   ''869c848c-7a58-4ed6-ab88-72ee2e8e677c'' \<in> restaurantId ` set STARRED_RESTAURANTS \<and>
   post_root [\<lparr>r_id = ''869c848c-7a58-4ed6-ab88-72ee2e8e677c'', name = ''Pho Palace''\<rparr>,
              \<lparr>r_id = ''R3'', name = ''Noodle Bar''\<rparr>]
     STARRED_RESTAURANTS ''869c848c-7a58-4ed6-ab88-72ee2e8e677c'' None ''u3''
     = (SendStatus 409, STARRED_RESTAURANTS)"
proof -
  let ?C = "[\<lparr>r_id = ''869c848c-7a58-4ed6-ab88-72ee2e8e677c'', name = ''Pho Palace''\<rparr>,
             \<lparr>r_id = ''R3'', name = ''Noodle Bar''\<rparr>]"
  let ?rid = "''869c848c-7a58-4ed6-ab88-72ee2e8e677c''"
  note inst = restaurantId_unique
      [where C = ?C and rid = ?rid and S = STARRED_RESTAURANTS and cmt = None and u = "''u3''"]
  have present: "?rid \<in> restaurantId ` set STARRED_RESTAURANTS"
    by (simp add: STARRED_RESTAURANTS_def)
  have listed: "(if ?rid \<in> r_id ` set ?C then 409 else 404) = (409::nat)"
    by simp
  from inst present
  have "post_root ?C STARRED_RESTAURANTS ?rid None ''u3'' =
          (SendStatus (if ?rid \<in> r_id ` set ?C then 409 else 404), STARRED_RESTAURANTS)"
    by blast
  then have refused: "post_root ?C STARRED_RESTAURANTS ?rid None ''u3'' =
          (SendStatus 409, STARRED_RESTAURANTS)"
    by (simp only: listed)
  from inst present refused show ?thesis by blast
qed

text \<open>
  The claim as written has Create refuse with Conflict whenever a record with the requested
  \<open>restaurantId\<close> is present. With the initial array and a catalog that lists the first seed
  restaurant only, the second seed restaurant is starred, and a Create for it is refused
  with 404.
\<close>

theorem create_refusal_status_counterexample:
  "''e8036613-4b72-46f6-ab5e-edd2fc7c4fe4'' \<in> restaurantId ` set STARRED_RESTAURANTS \<and>
   post_root [\<lparr>r_id = ''869c848c-7a58-4ed6-ab88-72ee2e8e677c'', name = ''Pho Palace''\<rparr>]
     STARRED_RESTAURANTS ''e8036613-4b72-46f6-ab5e-edd2fc7c4fe4'' (Some ''Again'') ''u1'' =
       (SendStatus 404, STARRED_RESTAURANTS) \<and>
   fst (post_root [\<lparr>r_id = ''869c848c-7a58-4ed6-ab88-72ee2e8e677c'', name = ''Pho Palace''\<rparr>]
          STARRED_RESTAURANTS ''e8036613-4b72-46f6-ab5e-edd2fc7c4fe4'' (Some ''Again'') ''u1'')
     \<noteq> SendStatus 409"
  by (simp add: post_root_def STARRED_RESTAURANTS_def)

section \<open>Feature 10 has no route\<close>

text \<open>
  Claim C2. The claim is that an update-comment operation exists: on an unknown id it answers
  404, otherwise it replaces that record's comment and answers 200. In the module the
  feature is only the comment block of lines 132 to 139; the router has no PUT or PATCH
  route, so for every path and body such a request matches nothing here: no handler answers
  200, and the array is left as it was, also for the id of a record the array holds.
\<close>

theorem update_unrouted:
  "route C S PUT p body u = (Unrouted, S) \<and> route C S PATCH p body u = (Unrouted, S)"
  by (cases p) simp_all

section \<open>Feature 8: what a Create does\<close>

lemma post_root_new:
  assumes "rid \<in> r_id ` set C" and "rid \<notin> restaurantId ` set S"
  shows "post_root C S rid cmt u =
           (Json 201 (Starred \<lparr>sr_id = u, restaurantId = rid, comment = comment_or_empty cmt\<rparr>),
            S @ [\<lparr>sr_id = u, restaurantId = rid, comment = comment_or_empty cmt\<rparr>])"
proof -
  from assms(1) obtain e where "find (\<lambda>r. r_id r = rid) C = Some e"
    using find_catalog_Some by blast
  moreover have "\<not> list_ex (\<lambda>r. restaurantId r = rid) S"
    using assms(2) by (simp add: some_starred_iff)
  ultimately show ?thesis by (simp add: post_root_def Let_def)
qed




text \<open>
  Claim C4, as the code has it. Create checks the catalog first and the array second. When
  the \<open>restaurantId\<close> is not the id of any catalog entry, Create answers 404 and leaves the
  array as it was. When it is the id of a catalog entry and a record of the array already
  has it, Create answers 409 and leaves the array as it was.
\<close>

theorem post_root_refused:
  "(rid \<notin> r_id ` set C \<longrightarrow> post_root C S rid cmt u = (SendStatus 404, S)) \<and>
   (rid \<in> r_id ` set C \<and> rid \<in> restaurantId ` set S \<longrightarrow>
      post_root C S rid cmt u = (SendStatus 409, S))"
proof (intro conjI impI)
  assume "rid \<notin> r_id ` set C"
  then have "find (\<lambda>r. r_id r = rid) C = None" by (simp add: find_catalog_None)
  then show "post_root C S rid cmt u = (SendStatus 404, S)" by (simp add: post_root_def)
next
  assume h: "rid \<in> r_id ` set C \<and> rid \<in> restaurantId ` set S"
  then obtain e where "find (\<lambda>r. r_id r = rid) C = Some e"
    using find_catalog_Some by blast
  moreover have "list_ex (\<lambda>r. restaurantId r = rid) S"
    using h by (simp add: some_starred_iff)
  ultimately show "post_root C S rid cmt u = (SendStatus 409, S)" by (simp add: post_root_def)
qed

theorem post_root_refused_witness:
  "''R9'' \<notin> r_id ` set [\<lparr>r_id = ''869c848c-7a58-4ed6-ab88-72ee2e8e677c'', name = ''Pho Palace''\<rparr>] \<and>
   post_root [\<lparr>r_id = ''869c848c-7a58-4ed6-ab88-72ee2e8e677c'', name = ''Pho Palace''\<rparr>]
     STARRED_RESTAURANTS ''R9'' None ''u1'' = (SendStatus 404, STARRED_RESTAURANTS) \<and>
   ''869c848c-7a58-4ed6-ab88-72ee2e8e677c'' \<in>
      r_id ` set [\<lparr>r_id = ''869c848c-7a58-4ed6-ab88-72ee2e8e677c'', name = ''Pho Palace''\<rparr>] \<and>
   ''869c848c-7a58-4ed6-ab88-72ee2e8e677c'' \<in> restaurantId ` set STARRED_RESTAURANTS \<and>
   post_root [\<lparr>r_id = ''869c848c-7a58-4ed6-ab88-72ee2e8e677c'', name = ''Pho Palace''\<rparr>]
     STARRED_RESTAURANTS ''869c848c-7a58-4ed6-ab88-72ee2e8e677c'' (Some ''again'') ''u2'' =
       (SendStatus 409, STARRED_RESTAURANTS)"
proof -
  let ?C = "[\<lparr>r_id = ''869c848c-7a58-4ed6-ab88-72ee2e8e677c'', name = ''Pho Palace''\<rparr>]"
  have a: "''R9'' \<notin> r_id ` set ?C" by simp
  have b: "''869c848c-7a58-4ed6-ab88-72ee2e8e677c'' \<in> r_id ` set ?C" by simp
  have c: "''869c848c-7a58-4ed6-ab88-72ee2e8e677c'' \<in> restaurantId ` set STARRED_RESTAURANTS"
    by (simp add: STARRED_RESTAURANTS_def)
  from a b c
    post_root_refused [of "''R9''" ?C STARRED_RESTAURANTS None "''u1''"]
    post_root_refused [of "''869c848c-7a58-4ed6-ab88-72ee2e8e677c''" ?C STARRED_RESTAURANTS
                          "Some ''again''" "''u2''"]
  show ?thesis by blast
qed

text \<open>
  The claim as written promises 409 whenever a record of the array has the \<open>restaurantId\<close>.
  With the initial array and a catalog that does not list the first seed restaurant, a
  Create for that restaurant is already starred, and the answer is 404, not 409.
\<close>

theorem post_root_conflict_counterexample:
  "''869c848c-7a58-4ed6-ab88-72ee2e8e677c'' \<in> restaurantId ` set STARRED_RESTAURANTS \<and>
   post_root [\<lparr>r_id = ''R3'', name = ''Noodle Bar''\<rparr>] STARRED_RESTAURANTS
     ''869c848c-7a58-4ed6-ab88-72ee2e8e677c'' None ''u1'' = (SendStatus 404, STARRED_RESTAURANTS) \<and>
   post_root [\<lparr>r_id = ''R3'', name = ''Noodle Bar''\<rparr>] STARRED_RESTAURANTS
     ''869c848c-7a58-4ed6-ab88-72ee2e8e677c'' None ''u1'' \<noteq> (SendStatus 409, STARRED_RESTAURANTS)"
  by (simp add: post_root_def STARRED_RESTAURANTS_def)

section \<open>Feature 7: reading one record\<close>

text \<open>
  Claim C5. Get-by-id answers 404 when no record of the array has the id. Otherwise it takes
  the record the scan finds (the first with that id) and answers 404 when no catalog entry
  has the record's \<open>restaurantId\<close>; when the catalog scan finds an entry, it answers 200 with
  the one joined view: the id, the record's comment and the entry's name. The array is the
  same afterwards in every case.
\<close>

theorem get_by_id_cases:
  "(i \<notin> sr_id ` set S \<longrightarrow> get_by_id C S i = (SendStatus 404, S)) \<and>
   (find (\<lambda>r. sr_id r = i) S = Some s \<and> restaurantId s \<notin> r_id ` set C \<longrightarrow>
      get_by_id C S i = (SendStatus 404, S)) \<and>
   (find (\<lambda>r. sr_id r = i) S = Some s \<and> find (\<lambda>r. r_id r = restaurantId s) C = Some e \<longrightarrow>
      get_by_id C S i = (Json 200 (Joined \<lparr>j_id = i, j_comment = comment s, j_name = name e\<rparr>), S)) \<and>
   snd (get_by_id C S i) = S"
proof (intro conjI impI)
  assume "i \<notin> sr_id ` set S"
  then have "find (\<lambda>r. sr_id r = i) S = None" by (auto simp: find_None_iff)
  then show "get_by_id C S i = (SendStatus 404, S)" by (simp add: get_by_id_def)
next
  assume "find (\<lambda>r. sr_id r = i) S = Some s \<and> restaurantId s \<notin> r_id ` set C"
  then show "get_by_id C S i = (SendStatus 404, S)"
    by (simp add: get_by_id_def find_catalog_None [symmetric])
next
  assume h: "find (\<lambda>r. sr_id r = i) S = Some s \<and> find (\<lambda>r. r_id r = restaurantId s) C = Some e"
  then have "sr_id s = i" by (auto simp: find_Some_iff)
  with h show "get_by_id C S i =
      (Json 200 (Joined \<lparr>j_id = i, j_comment = comment s, j_name = name e\<rparr>), S)"
    by (simp add: get_by_id_def)
next
  show "snd (get_by_id C S i) = S" by (rule snd_get_by_id)
qed

text \<open>
  An instance on the initial array with a catalog that lists the first seed restaurant
  only: an unknown id, the second seed record (its catalog entry is missing) and the first
  seed record.
\<close>

theorem get_by_id_cases_witness:
  "''nonexistent-id'' \<notin> sr_id ` set STARRED_RESTAURANTS \<and>
   get_by_id [\<lparr>r_id = ''869c848c-7a58-4ed6-ab88-72ee2e8e677c'', name = ''Pho Palace''\<rparr>]
     STARRED_RESTAURANTS ''nonexistent-id'' = (SendStatus 404, STARRED_RESTAURANTS) \<and>
   get_by_id [\<lparr>r_id = ''869c848c-7a58-4ed6-ab88-72ee2e8e677c'', name = ''Pho Palace''\<rparr>]
     STARRED_RESTAURANTS ''8df59b21-2152-4f9b-9200-95c19aa88226'' =
       (SendStatus 404, STARRED_RESTAURANTS) \<and>
   get_by_id [\<lparr>r_id = ''869c848c-7a58-4ed6-ab88-72ee2e8e677c'', name = ''Pho Palace''\<rparr>]
     STARRED_RESTAURANTS ''a7272cd9-26fb-44b5-8d53-9781f55175a1'' =
       (Json 200 (Joined \<lparr>j_id = ''a7272cd9-26fb-44b5-8d53-9781f55175a1'',
                           j_comment = ''Best pho in NYC'', j_name = ''Pho Palace''\<rparr>),
        STARRED_RESTAURANTS)"
proof -
  let ?pho = "\<lparr>r_id = ''869c848c-7a58-4ed6-ab88-72ee2e8e677c'', name = ''Pho Palace''\<rparr>"
  let ?s1 = "\<lparr>sr_id = ''a7272cd9-26fb-44b5-8d53-9781f55175a1'',
              restaurantId = ''869c848c-7a58-4ed6-ab88-72ee2e8e677c'',
              comment = ''Best pho in NYC''\<rparr>"
  let ?s2 = "\<lparr>sr_id = ''8df59b21-2152-4f9b-9200-95c19aa88226'',
              restaurantId = ''e8036613-4b72-46f6-ab5e-edd2fc7c4fe4'',
              comment = ''Their lunch special is the best!''\<rparr>"
  have absent: "''nonexistent-id'' \<notin> sr_id ` set STARRED_RESTAURANTS"
    by (simp add: STARRED_RESTAURANTS_def)
  have second: "find (\<lambda>r. sr_id r = ''8df59b21-2152-4f9b-9200-95c19aa88226'') STARRED_RESTAURANTS
                  = Some ?s2 \<and> restaurantId ?s2 \<notin> r_id ` set [?pho]"
    by (simp add: STARRED_RESTAURANTS_def)
  have first: "find (\<lambda>r. sr_id r = ''a7272cd9-26fb-44b5-8d53-9781f55175a1'') STARRED_RESTAURANTS
                 = Some ?s1 \<and> find (\<lambda>r. r_id r = restaurantId ?s1) [?pho] = Some ?pho"
    by (simp add: STARRED_RESTAURANTS_def)
  from absent get_by_id_cases [of "''nonexistent-id''" STARRED_RESTAURANTS "[?pho]"]
  have 1: "get_by_id [?pho] STARRED_RESTAURANTS ''nonexistent-id'' = (SendStatus 404, STARRED_RESTAURANTS)"
    by blast
  from second
    get_by_id_cases [of "''8df59b21-2152-4f9b-9200-95c19aa88226''" STARRED_RESTAURANTS "[?pho]" ?s2]
  have 2: "get_by_id [?pho] STARRED_RESTAURANTS ''8df59b21-2152-4f9b-9200-95c19aa88226'' =
             (SendStatus 404, STARRED_RESTAURANTS)"
    by blast
  from first
    get_by_id_cases [of "''a7272cd9-26fb-44b5-8d53-9781f55175a1''" STARRED_RESTAURANTS "[?pho]" ?s1 ?pho]
  have 3: "get_by_id [?pho] STARRED_RESTAURANTS ''a7272cd9-26fb-44b5-8d53-9781f55175a1'' =
             (Json 200 (Joined \<lparr>j_id = ''a7272cd9-26fb-44b5-8d53-9781f55175a1'',
                                 j_comment = comment ?s1, j_name = name ?pho\<rparr>),
              STARRED_RESTAURANTS)"
    by blast
  from absent 1 2 3 show ?thesis by simp
qed

section \<open>Feature 9: deleting\<close>


lemma delete_by_id_present:
  assumes "i \<in> sr_id ` set S"
  shows "delete_by_id S i = (SendStatus 200, filter (\<lambda>r. sr_id r \<noteq> i) S)"
proof -
  from assms have "\<exists>r\<in>set S. \<not> sr_id r \<noteq> i" by auto
  then have "length (filter (\<lambda>r. sr_id r \<noteq> i) S) < length S"
    by (metis (mono_tags, lifting) length_filter_less)
  then show ?thesis by (simp add: delete_by_id_def)
qed

text \<open>
  The ids of the array stay pairwise distinct as long as each generated identifier is new to
  the array. The handler itself never compares the identifier with the ids it holds.
\<close>

lemma post_root_ids_distinct:
  assumes "distinct (map sr_id S)" and "u \<notin> sr_id ` set S"
  shows "distinct (map sr_id (snd (post_root C S rid cmt u)))"
  using snd_post_root [of C S rid cmt u] assms by auto

lemma route_ids_distinct:
  "distinct (map sr_id S) \<Longrightarrow> u \<notin> sr_id ` set S \<Longrightarrow>
   distinct (map sr_id (snd (route C S m p body u)))"
  by (induction C S m p body u rule: route.induct)
     (simp_all add: snd_get_root snd_get_by_id post_root_ids_distinct snd_delete_by_id
        distinct_map_filter)




text \<open>
  Claim C10. Delete-by-id keeps exactly the records whose id differs from the given one:
  whenever some record has the id, the answer is 200, the array afterwards is the old one
  filtered, and no record with that id is left in it, however many there were.
\<close>

theorem delete_by_id_all:
  assumes "i \<in> sr_id ` set S"
  shows "delete_by_id S i = (SendStatus 200, filter (\<lambda>r. sr_id r \<noteq> i) S) \<and>
         i \<notin> sr_id ` set (snd (delete_by_id S i))"
  using delete_by_id_present [OF assms] by auto

text \<open>An array in which two records share the id: one call removes both.\<close>

theorem delete_by_id_all_witness:
  "''a'' \<in> sr_id ` set [\<lparr>sr_id = ''a'', restaurantId = ''R1'', comment = ''x''\<rparr>,
                         \<lparr>sr_id = ''b'', restaurantId = ''R2'', comment = ''y''\<rparr>,
                         \<lparr>sr_id = ''a'', restaurantId = ''R3'', comment = ''z''\<rparr>] \<and>
   delete_by_id [\<lparr>sr_id = ''a'', restaurantId = ''R1'', comment = ''x''\<rparr>,
                 \<lparr>sr_id = ''b'', restaurantId = ''R2'', comment = ''y''\<rparr>,
                 \<lparr>sr_id = ''a'', restaurantId = ''R3'', comment = ''z''\<rparr>] ''a'' =
     (SendStatus 200, [\<lparr>sr_id = ''b'', restaurantId = ''R2'', comment = ''y''\<rparr>])"
proof -
  let ?S = "[\<lparr>sr_id = ''a'', restaurantId = ''R1'', comment = ''x''\<rparr>,
             \<lparr>sr_id = ''b'', restaurantId = ''R2'', comment = ''y''\<rparr>,
             \<lparr>sr_id = ''a'', restaurantId = ''R3'', comment = ''z''\<rparr>]"
  have a: "''a'' \<in> sr_id ` set ?S" by simp
  from delete_by_id_all [OF a] a show ?thesis by simp
qed

section \<open>Feature 6: listing\<close>

lemma map_throwing_total:
  assumes "\<forall>x\<in>set xs. \<exists>y. f x = Inr y"
  shows "\<exists>ys. map_throwing f xs = Inr ys \<and> length ys = length xs \<and>
              (\<forall>k<length xs. f (xs ! k) = Inr (ys ! k))"
  using assms
proof (induction xs)
  case Nil
  then show ?case by simp
next
  case (Cons x xs)
  then obtain y where y: "f x = Inr y" by auto
  from Cons obtain ys where ys: "map_throwing f xs = Inr ys" "length ys = length xs"
    "\<forall>k<length xs. f (xs ! k) = Inr (ys ! k)" by auto
  have "\<forall>k<length (x # xs). f ((x # xs) ! k) = Inr ((y # ys) ! k)"
  proof (intro allI impI)
    fix k assume "k < length (x # xs)"
    then show "f ((x # xs) ! k) = Inr ((y # ys) ! k)"
      using y ys(3) by (cases k) auto
  qed
  with y ys(1,2) show ?case by simp
qed

lemma map_throwing_throws:
  assumes "x \<in> set xs" and "f x = Inl e"
  shows "map_throwing f xs = Inl TypeError"
  using assms
proof (induction xs)
  case Nil
  then show ?case by simp
next
  case (Cons a xs)
  show ?case
  proof (cases "f a")
    case (Inl e')
    then show ?thesis by (cases e') simp
  next
    case (Inr y)
    with Cons have "map_throwing f xs = Inl TypeError" by auto
    with Inr show ?thesis by simp
  qed
qed

lemma joinStarred_found:
  assumes "restaurantId s \<in> r_id ` set C"
  shows "\<exists>e. find (\<lambda>r. r_id r = restaurantId s) C = Some e \<and>
             joinStarred C s = Inr \<lparr>j_id = sr_id s, j_comment = comment s, j_name = name e\<rparr>"
proof -
  from assms obtain e where "find (\<lambda>r. r_id r = restaurantId s) C = Some e"
    using find_catalog_Some by blast
  then show ?thesis by (simp add: joinStarred_def)
qed

text \<open>
  Claim C7, as the code has it. When every record of the array has its \<open>restaurantId\<close> among
  the catalog's ids, List answers 200 with a list of joined views that is as long as the
  array and follows its order: the view at each position carries the id and the comment of
  the record at that position, and the name of the catalog entry the scan finds for that
  record's \<open>restaurantId\<close>. The array is the same afterwards.
\<close>

theorem get_root_joined:
  assumes "\<forall>s\<in>set S. restaurantId s \<in> r_id ` set C"
  shows "\<exists>js. get_root C S = (Json 200 (JoinedList js), S) \<and>
              length js = length S \<and>
              (\<forall>k<length S.
                 j_id (js ! k) = sr_id (S ! k) \<and>
                 j_comment (js ! k) = comment (S ! k) \<and>
                 (\<exists>e. find (\<lambda>r. r_id r = restaurantId (S ! k)) C = Some e \<and>
                      j_name (js ! k) = name e))"
proof -
  from assms have "\<forall>s\<in>set S. \<exists>y. joinStarred C s = Inr y"
    using joinStarred_found by blast
  then obtain js where js: "map_throwing (joinStarred C) S = Inr js" "length js = length S"
    and each: "\<forall>k<length S. joinStarred C (S ! k) = Inr (js ! k)"
    using map_throwing_total [of S "joinStarred C"] by blast
  have "\<forall>k<length S.
          j_id (js ! k) = sr_id (S ! k) \<and> j_comment (js ! k) = comment (S ! k) \<and>
          (\<exists>e. find (\<lambda>r. r_id r = restaurantId (S ! k)) C = Some e \<and> j_name (js ! k) = name e)"
  proof (intro allI impI)
    fix k assume k: "k < length S"
    then have "restaurantId (S ! k) \<in> r_id ` set C" using assms by simp
    then obtain e where e: "find (\<lambda>r. r_id r = restaurantId (S ! k)) C = Some e"
      and "joinStarred C (S ! k) =
             Inr \<lparr>j_id = sr_id (S ! k), j_comment = comment (S ! k), j_name = name e\<rparr>"
      using joinStarred_found by blast
    with each k have "js ! k = \<lparr>j_id = sr_id (S ! k), j_comment = comment (S ! k), j_name = name e\<rparr>"
      by simp
    with e show "j_id (js ! k) = sr_id (S ! k) \<and> j_comment (js ! k) = comment (S ! k) \<and>
          (\<exists>e. find (\<lambda>r. r_id r = restaurantId (S ! k)) C = Some e \<and> j_name (js ! k) = name e)"
      by simp
  qed
  with js show ?thesis by (simp add: get_root_def)
qed

text \<open>An instance: the initial array with a catalog that lists both seed restaurants.\<close>

theorem get_root_joined_witness:
  "restaurantId ` set STARRED_RESTAURANTS \<subseteq>
     r_id ` set [\<lparr>r_id = ''869c848c-7a58-4ed6-ab88-72ee2e8e677c'', name = ''Pho Palace''\<rparr>,
                 \<lparr>r_id = ''e8036613-4b72-46f6-ab5e-edd2fc7c4fe4'', name = ''Lunch Box''\<rparr>] \<and>
   get_root [\<lparr>r_id = ''869c848c-7a58-4ed6-ab88-72ee2e8e677c'', name = ''Pho Palace''\<rparr>,
             \<lparr>r_id = ''e8036613-4b72-46f6-ab5e-edd2fc7c4fe4'', name = ''Lunch Box''\<rparr>]
     STARRED_RESTAURANTS =
     (Json 200 (JoinedList
        [\<lparr>j_id = ''a7272cd9-26fb-44b5-8d53-9781f55175a1'', j_comment = ''Best pho in NYC'',
           j_name = ''Pho Palace''\<rparr>,
         \<lparr>j_id = ''8df59b21-2152-4f9b-9200-95c19aa88226'',
           j_comment = ''Their lunch special is the best!'', j_name = ''Lunch Box''\<rparr>]),
      STARRED_RESTAURANTS)"
proof -
  let ?C = "[\<lparr>r_id = ''869c848c-7a58-4ed6-ab88-72ee2e8e677c'', name = ''Pho Palace''\<rparr>,
             \<lparr>r_id = ''e8036613-4b72-46f6-ab5e-edd2fc7c4fe4'', name = ''Lunch Box''\<rparr>]"
  have h: "\<forall>s\<in>set STARRED_RESTAURANTS. restaurantId s \<in> r_id ` set ?C"
    by (simp add: STARRED_RESTAURANTS_def)
  from get_root_joined [OF h] obtain js
    where "get_root ?C STARRED_RESTAURANTS = (Json 200 (JoinedList js), STARRED_RESTAURANTS)"
    by blast
  moreover have "get_root ?C STARRED_RESTAURANTS =
     (Json 200 (JoinedList
        [\<lparr>j_id = ''a7272cd9-26fb-44b5-8d53-9781f55175a1'', j_comment = ''Best pho in NYC'',
           j_name = ''Pho Palace''\<rparr>,
         \<lparr>j_id = ''8df59b21-2152-4f9b-9200-95c19aa88226'',
           j_comment = ''Their lunch special is the best!'', j_name = ''Lunch Box''\<rparr>]),
      STARRED_RESTAURANTS)"
    by (simp add: get_root_def joinStarred_def STARRED_RESTAURANTS_def)
  moreover have "restaurantId ` set STARRED_RESTAURANTS \<subseteq> r_id ` set ?C"
    using h by blast
  ultimately show ?thesis by simp
qed

text \<open>
  The claim as written is about every array. With the initial array and a catalog that
  lists the first seed restaurant only, the second record has no catalog entry: there is no
  list of views at all, the handler ends in the TypeError.
\<close>

theorem get_root_every_state_counterexample:
  "get_root [\<lparr>r_id = ''869c848c-7a58-4ed6-ab88-72ee2e8e677c'', name = ''Pho Palace''\<rparr>]
     STARRED_RESTAURANTS = (Uncaught TypeError, STARRED_RESTAURANTS)"
  by (simp add: get_root_def joinStarred_def STARRED_RESTAURANTS_def)

text \<open>
  Claim C9. The catalog scan in List is partial. Whenever the array holds a record whose
  \<open>restaurantId\<close> is the id of no catalog entry, the scan for that record finds nothing, the
  read of its name throws, and the whole request ends in that error: the answer is neither
  a list with the record left out nor a 404.
\<close>

theorem get_root_dangling:
  assumes "s \<in> set S" and "restaurantId s \<notin> r_id ` set C"
  shows "find (\<lambda>r. r_id r = restaurantId s) C = None \<and>
         get_root C S = (Uncaught TypeError, S)"
proof -
  from assms(2) have none: "find (\<lambda>r. r_id r = restaurantId s) C = None"
    by (simp add: find_catalog_None)
  then have "joinStarred C s = Inl TypeError"
    by (simp add: joinStarred_def)
  with assms(1) have "map_throwing (joinStarred C) S = Inl TypeError"
    by (rule map_throwing_throws)
  with none show ?thesis by (simp add: get_root_def)
qed

theorem get_root_dangling_witness:
  "\<lparr>sr_id = ''s2'', restaurantId = ''R9'', comment = ''gone''\<rparr> \<in>
     set [\<lparr>sr_id = ''s1'', restaurantId = ''R1'', comment = ''Great!''\<rparr>,
          \<lparr>sr_id = ''s2'', restaurantId = ''R9'', comment = ''gone''\<rparr>] \<and>
   ''R9'' \<notin> r_id ` set [\<lparr>r_id = ''R1'', name = ''Pho Palace''\<rparr>] \<and>
   get_root [\<lparr>r_id = ''R1'', name = ''Pho Palace''\<rparr>]
     [\<lparr>sr_id = ''s1'', restaurantId = ''R1'', comment = ''Great!''\<rparr>,
      \<lparr>sr_id = ''s2'', restaurantId = ''R9'', comment = ''gone''\<rparr>] =
     (Uncaught TypeError,
      [\<lparr>sr_id = ''s1'', restaurantId = ''R1'', comment = ''Great!''\<rparr>,
       \<lparr>sr_id = ''s2'', restaurantId = ''R9'', comment = ''gone''\<rparr>])"
proof -
  let ?s = "\<lparr>sr_id = ''s2'', restaurantId = ''R9'', comment = ''gone''\<rparr>"
  let ?S = "[\<lparr>sr_id = ''s1'', restaurantId = ''R1'', comment = ''Great!''\<rparr>, ?s]"
  let ?C = "[\<lparr>r_id = ''R1'', name = ''Pho Palace''\<rparr>]"
  have a: "?s \<in> set ?S" by simp
  have b: "restaurantId ?s \<notin> r_id ` set ?C" by simp
  from get_root_dangling [OF a b] a b show ?thesis by simp
qed

section \<open>Create, then read\<close>

lemma find_snoc_fresh:
  "\<forall>x\<in>set xs. \<not> P x \<Longrightarrow> P y \<Longrightarrow> find P (xs @ [y]) = Some y"
  by (induction xs) auto

text \<open>
  Claim C8, as the code has it. After a Create that succeeds (the \<open>restaurantId\<close> is in the
  catalog and not yet starred) and whose generated identifier is the id of no record the
  array already holds, a Get-by-id with the id Create returned answers 200 with a joined
  view whose name is the name of the catalog entry for that \<open>restaurantId\<close>.
\<close>

theorem create_then_get:
  assumes "rid \<in> r_id ` set C" and "rid \<notin> restaurantId ` set S" and "u \<notin> sr_id ` set S"
  shows "\<exists>created e.
           post_root C S rid cmt u = (Json 201 (Starred created), S @ [created]) \<and>
           sr_id created = u \<and>
           find (\<lambda>r. r_id r = rid) C = Some e \<and>
           get_by_id C (S @ [created]) (sr_id created) =
             (Json 200 (Joined \<lparr>j_id = u, j_comment = comment created, j_name = name e\<rparr>),
              S @ [created])"
proof -
  let ?new = "\<lparr>sr_id = u, restaurantId = rid, comment = comment_or_empty cmt\<rparr>"
  from assms(1) obtain e where e: "find (\<lambda>r. r_id r = rid) C = Some e"
    using find_catalog_Some by blast
  have created: "post_root C S rid cmt u = (Json 201 (Starred ?new), S @ [?new])"
    using assms(1,2) by (rule post_root_new)
  from assms(3) have "\<forall>x\<in>set S. \<not> sr_id x = u" by auto
  then have "find (\<lambda>r. sr_id r = u) (S @ [?new]) = Some ?new"
    by (rule find_snoc_fresh) simp
  with e have "get_by_id C (S @ [?new]) u =
      (Json 200 (Joined \<lparr>j_id = u, j_comment = comment ?new, j_name = name e\<rparr>), S @ [?new])"
    by (simp add: get_by_id_def)
  with created e show ?thesis by (intro exI [of _ ?new] exI [of _ e]) simp
qed

theorem create_then_get_witness:
  "''R3'' \<in> r_id ` set [\<lparr>r_id = ''R3'', name = ''Noodle Bar''\<rparr>] \<and>
   ''R3'' \<notin> restaurantId ` set STARRED_RESTAURANTS \<and>
   ''u1'' \<notin> sr_id ` set STARRED_RESTAURANTS \<and>
   (\<exists>created e.
      post_root [\<lparr>r_id = ''R3'', name = ''Noodle Bar''\<rparr>] STARRED_RESTAURANTS ''R3''
          (Some ''Great!'') ''u1'' =
        (Json 201 (Starred created), STARRED_RESTAURANTS @ [created]) \<and>
      sr_id created = ''u1'' \<and>
      find (\<lambda>r. r_id r = ''R3'') [\<lparr>r_id = ''R3'', name = ''Noodle Bar''\<rparr>] = Some e \<and>
      get_by_id [\<lparr>r_id = ''R3'', name = ''Noodle Bar''\<rparr>] (STARRED_RESTAURANTS @ [created])
          (sr_id created) =
        (Json 200 (Joined \<lparr>j_id = ''u1'', j_comment = comment created, j_name = name e\<rparr>),
         STARRED_RESTAURANTS @ [created]))"
proof -
  have a: "''R3'' \<in> r_id ` set [\<lparr>r_id = ''R3'', name = ''Noodle Bar''\<rparr>]" by simp
  have b: "''R3'' \<notin> restaurantId ` set STARRED_RESTAURANTS"
    by (simp add: STARRED_RESTAURANTS_def)
  have c: "''u1'' \<notin> sr_id ` set STARRED_RESTAURANTS"
    by (simp add: STARRED_RESTAURANTS_def)
  from a b c create_then_get [OF a b c, of "Some ''Great!''"] show ?thesis by blast
qed

text \<open>
  The claim as written is about every successful Create. Create stores what \<^verbatim>\<open>uuidv4()\<close>
  returns without comparing it with the ids of the array, and Get-by-id takes the first
  record with the id. With the initial array, a catalog that lists only the restaurant
  being starred, and a generated identifier equal to the first seed record's id, Create
  answers 201, and the Get-by-id that follows finds the seed record, whose restaurant the
  catalog does not list, and answers 404.
\<close>

theorem create_then_get_counterexample:
  "''R3'' \<in> r_id ` set [\<lparr>r_id = ''R3'', name = ''Noodle Bar''\<rparr>] \<and>
   ''R3'' \<notin> restaurantId ` set STARRED_RESTAURANTS \<and>
   post_root [\<lparr>r_id = ''R3'', name = ''Noodle Bar''\<rparr>] STARRED_RESTAURANTS ''R3''
       (Some ''Great!'') ''a7272cd9-26fb-44b5-8d53-9781f55175a1'' =
     (Json 201 (Starred \<lparr>sr_id = ''a7272cd9-26fb-44b5-8d53-9781f55175a1'',
                          restaurantId = ''R3'', comment = ''Great!''\<rparr>),
      STARRED_RESTAURANTS @ [\<lparr>sr_id = ''a7272cd9-26fb-44b5-8d53-9781f55175a1'',
                               restaurantId = ''R3'', comment = ''Great!''\<rparr>]) \<and>
   get_by_id [\<lparr>r_id = ''R3'', name = ''Noodle Bar''\<rparr>]
       (STARRED_RESTAURANTS @ [\<lparr>sr_id = ''a7272cd9-26fb-44b5-8d53-9781f55175a1'',
                                restaurantId = ''R3'', comment = ''Great!''\<rparr>])
       ''a7272cd9-26fb-44b5-8d53-9781f55175a1'' =
     (SendStatus 404,
      STARRED_RESTAURANTS @ [\<lparr>sr_id = ''a7272cd9-26fb-44b5-8d53-9781f55175a1'',
                               restaurantId = ''R3'', comment = ''Great!''\<rparr>])"
  by (simp add: post_root_def get_by_id_def comment_or_empty_def Let_def STARRED_RESTAURANTS_def)

end
